theory Spec2Isabelle
  imports Complex_Main "HOL-Library.Multiset"
begin

section \<open>JavaScript numbers\<close>

text \<open>
  The server computes with JavaScript numbers. They are modelled as exact reals together
  with the value NaN, which \<open>parseFloat\<close> returns on a token without digits and which
  every later operation propagates. IEEE rounding and overflow are abstracted: the
  arithmetic below is exact. Division and remainder are only ever taken by the positive
  literals 30, 60, 100, 360 and 3600 of the source, so their right operand is a real.
\<close>

datatype number = Num real | NaN

fun jadd :: "number \<Rightarrow> number \<Rightarrow> number" where
  "jadd (Num a) (Num b) = Num (a + b)"
| "jadd _ _ = NaN"

fun jsub :: "number \<Rightarrow> number \<Rightarrow> number" where
  "jsub (Num a) (Num b) = Num (a - b)"
| "jsub _ _ = NaN"

fun jmul :: "number \<Rightarrow> real \<Rightarrow> number" where
  "jmul (Num a) c = Num (a * c)"
| "jmul NaN c = NaN"

fun jdiv :: "number \<Rightarrow> real \<Rightarrow> number" where
  "jdiv (Num a) c = Num (a / c)"
| "jdiv NaN c = NaN"

text \<open>The operator \<open>%\<close> truncates towards zero: the result has the sign of the dividend.\<close>

definition trunc :: "real \<Rightarrow> int" where
  "trunc x = (if 0 \<le> x then \<lfloor>x\<rfloor> else \<lceil>x\<rceil>)"

fun jmod :: "number \<Rightarrow> real \<Rightarrow> number" where
  "jmod (Num a) m = Num (a - m * of_int (trunc (a / m)))"
| "jmod NaN m = NaN"

fun jabs :: "number \<Rightarrow> number" where
  "jabs (Num a) = Num \<bar>a\<bar>"
| "jabs NaN = NaN"

fun jfloor :: "number \<Rightarrow> number" where
  "jfloor (Num a) = Num (of_int \<lfloor>a\<rfloor>)"
| "jfloor NaN = NaN"

text \<open>\<open>Math.round\<close> rounds to the nearest integer, a half towards plus infinity.\<close>

fun jround :: "number \<Rightarrow> number" where
  "jround (Num a) = Num (of_int \<lfloor>a + 1 / 2\<rfloor>)"
| "jround NaN = NaN"

text \<open>Comparisons with NaN are false.\<close>

fun jlt :: "number \<Rightarrow> real \<Rightarrow> bool" where
  "jlt (Num a) c = (a < c)"
| "jlt NaN c = False"

fun jgt :: "number \<Rightarrow> real \<Rightarrow> bool" where
  "jgt (Num a) c = (a > c)"
| "jgt NaN c = False"

fun jle :: "number \<Rightarrow> real \<Rightarrow> bool" where
  "jle (Num a) c = (a \<le> c)"
| "jle NaN c = False"

section \<open>Strings\<close>

text \<open>
  Text is a list of code units below 256. Of these, \<open>\s\<close> and \<open>trim\<close> treat
  tab, line feed, vertical tab, form feed, carriage return, space and no-break space as
  white space; \<open>\d\<close> is an ASCII digit and \<open>[a-z]\<close> under the flag \<open>i\<close> an ASCII
  letter.
\<close>

definition isSpace :: "char \<Rightarrow> bool" where
  "isSpace c = ((9 \<le> (of_char c :: nat) \<and> (of_char c :: nat) \<le> 13)
     \<or> (of_char c :: nat) = 32 \<or> (of_char c :: nat) = 160)"

definition isDigit :: "char \<Rightarrow> bool" where
  "isDigit c = (48 \<le> (of_char c :: nat) \<and> (of_char c :: nat) \<le> 57)"

definition isUpper :: "char \<Rightarrow> bool" where
  "isUpper c = (65 \<le> (of_char c :: nat) \<and> (of_char c :: nat) \<le> 90)"

definition isLetter :: "char \<Rightarrow> bool" where
  "isLetter c = (isUpper c \<or> (97 \<le> (of_char c :: nat) \<and> (of_char c :: nat) \<le> 122))"

definition toLowerCase :: "string \<Rightarrow> string" where
  "toLowerCase s = map (\<lambda>c. if isUpper c then char_of ((of_char c :: nat) + 32) else c) s"

definition trim :: "string \<Rightarrow> string" where
  "trim s = rev (dropWhile isSpace (rev (dropWhile isSpace s)))"

text \<open>\<open>s.split(sep)\<close> for a separator of one character.\<close>

fun split :: "char \<Rightarrow> string \<Rightarrow> string list" where
  "split sep [] = [[]]"
| "split sep (c # cs) =
     (if c = sep then [] # split sep cs
      else (case split sep cs of p # ps \<Rightarrow> (c # p) # ps | [] \<Rightarrow> [[c]]))"

fun startsWith :: "string \<Rightarrow> string \<Rightarrow> bool" where
  "startsWith s [] = True"
| "startsWith [] (p # ps) = False"
| "startsWith (c # cs) (p # ps) = (c = p \<and> startsWith cs ps)"

fun includesStr :: "string \<Rightarrow> string \<Rightarrow> bool" where
  "includesStr [] pat = (pat = [])"
| "includesStr (c # cs) pat = (startsWith (c # cs) pat \<or> includesStr cs pat)"

text \<open>
  \<open>parseInt\<close> is only applied to a match of \<open>\d+\<close>, \<open>parseFloat\<close> only to a match of
  \<open>[\d.]+\<close> or to a result of \<open>toFixed\<close>. On such text \<open>parseFloat\<close> reads the longest
  prefix that is a decimal literal (digits, optionally a point and digits, or a point and
  digits), and is NaN when there is none.
\<close>

definition digitVal :: "char \<Rightarrow> nat" where
  "digitVal c = (of_char c :: nat) - 48"

definition parseInt :: "string \<Rightarrow> nat" where
  "parseInt ds = foldl (\<lambda>n c. 10 * n + digitVal c) 0 ds"

definition parseFloat :: "string \<Rightarrow> number" where
  "parseFloat s =
     (let ip = takeWhile isDigit s;
          r = dropWhile isDigit s;
          fp = (if take 1 r = ''.'' then takeWhile isDigit (drop 1 r) else [])
      in if ip = [] \<and> fp = [] then NaN
         else Num (real (parseInt ip) + real (parseInt fp) / 10 ^ length fp))"

section \<open>Position lines\<close>

record point =
  longitude :: number
  sign :: "string option"
  degree :: number

text \<open>
  The match of \<open>/^(\d+)\s+([a-z]{2})\s+(\d+)'\s*([\d.]+)$/i\<close> against a string, as its
  four groups. Adjacent parts of the pattern accept disjoint characters, so the greedy
  match is the only one.
\<close>

definition posMatch :: "string \<Rightarrow> (string \<times> string \<times> string \<times> string) option" where
  "posMatch s =
     (let d = takeWhile isDigit s; r1 = dropWhile isDigit s;
          w1 = takeWhile isSpace r1; r2 = dropWhile isSpace r1;
          ab = take 2 r2; r3 = drop 2 r2;
          w2 = takeWhile isSpace r3; r4 = dropWhile isSpace r3;
          m = takeWhile isDigit r4; r5 = dropWhile isDigit r4;
          sec = dropWhile isSpace (drop 1 r5)
      in if d \<noteq> [] \<and> w1 \<noteq> [] \<and> length ab = 2 \<and> list_all isLetter ab \<and> w2 \<noteq> []
            \<and> m \<noteq> [] \<and> take 1 r5 = [CHR 0x27] \<and> sec \<noteq> []
            \<and> list_all (\<lambda>c. isDigit c \<or> c = CHR ''.'') sec
         then Some (d, ab, m, sec) else None)"

definition signTable :: "(string \<times> string \<times> real) list" where
  "signTable =
     [(''ar'', (''Aries'', 0)), (''ta'', (''Taurus'', 30)), (''ge'', (''Gemini'', 60)),
      (''cn'', (''Cancer'', 90)), (''le'', (''Leo'', 120)), (''vi'', (''Virgo'', 150)),
      (''li'', (''Libra'', 180)), (''sc'', (''Scorpio'', 210)),
      (''sa'', (''Sagittarius'', 240)), (''cp'', (''Capricorn'', 270)),
      (''aq'', (''Aquarius'', 300)), (''pi'', (''Pisces'', 330))]"

definition signMap :: "string \<Rightarrow> (string \<times> real) option" where
  "signMap = map_of signTable"

text \<open>
  The three parsers of the source repeat one block word for word: match the position
  string, read its four groups, look the sign up, and build longitude and degree.
\<close>

definition parsePosition :: "string \<Rightarrow> point option" where
  "parsePosition positionStr =
     (case posMatch positionStr of
        None \<Rightarrow> None
      | Some (g1, g2, g3, g4) \<Rightarrow>
          (let degrees = Num (real (parseInt g1));
               signAbbr = toLowerCase g2;
               minutes = Num (real (parseInt g3));
               seconds = parseFloat g4
           in case signMap signAbbr of
                None \<Rightarrow> None
              | Some (signName, offset) \<Rightarrow>
                  Some \<lparr>longitude =
                          jadd (jadd (jadd (Num offset) degrees) (jdiv minutes 60))
                               (jdiv seconds 3600),
                        sign = Some signName,
                        degree =
                          jdiv (jround (jmul (jadd (jadd degrees (jdiv minutes 60))
                                                   (jdiv seconds 3600)) 100)) 100\<rparr>))"

text \<open>\<open>parsePlanetLine\<close> and \<open>parseChartPointLine\<close> return the label with the point.\<close>

definition parsePlanetLine :: "string \<Rightarrow> (string \<times> point) option" where
  "parsePlanetLine line =
     (let parts = split (CHR '','') (trim line)
      in if length parts < 2 then None
         else (let name = trim (parts ! 0); positionStr = trim (parts ! 1)
               in map_option (\<lambda>p. (name, p)) (parsePosition positionStr)))"

text \<open>The match of \<open>/^house\s+(\d+)/\<close>: its group.\<close>

definition houseMatch :: "string \<Rightarrow> string option" where
  "houseMatch s =
     (let r = drop 5 s; w = takeWhile isSpace r; d = takeWhile isDigit (dropWhile isSpace r)
      in if take 5 s = ''house'' \<and> w \<noteq> [] \<and> d \<noteq> [] then Some d else None)"

definition parseHouseLine :: "string \<Rightarrow> (nat \<times> point) option" where
  "parseHouseLine line =
     (let parts = split (CHR '','') (trim line)
      in if length parts < 2 then None
         else (case houseMatch (trim (parts ! 0)) of
                 None \<Rightarrow> None
               | Some g \<Rightarrow>
                   (let house = parseInt g; positionStr = trim (parts ! 1)
                    in map_option (\<lambda>p. (house, p)) (parsePosition positionStr))))"

definition parseChartPointLine :: "string \<Rightarrow> (string \<times> point) option" where
  "parseChartPointLine line =
     (let parts = split (CHR '','') (trim line)
      in if length parts < 2 then None
         else (let name = trim (parts ! 0); positionStr = trim (parts ! 1)
               in map_option (\<lambda>p. (name, p)) (parsePosition positionStr)))"

section \<open>Chart assembly\<close>

record chart =
  planets :: "string \<rightharpoonup> point"
  houses :: "nat \<rightharpoonup> point"
  chart_points :: "string \<rightharpoonup> point"
  additional_points :: "string \<rightharpoonup> point"
  datetime :: string
  coordinates :: "real \<times> real"

datatype error = Error string

text \<open>
  The name tables are object literals, so a lookup also finds the members every object
  inherits. Such a member is truthy and is then used as the key, where it is converted to
  a string: a built-in function to its source text, the prototype object to
  \<open>[object Object]\<close>.
\<close>

definition inheritedKey :: "string \<Rightarrow> string option" where
  "inheritedKey = map_of
     [(''constructor'', ''function Object() { [native code] }''),
      (''__defineGetter__'', ''function __defineGetter__() { [native code] }''),
      (''__defineSetter__'', ''function __defineSetter__() { [native code] }''),
      (''hasOwnProperty'', ''function hasOwnProperty() { [native code] }''),
      (''__lookupGetter__'', ''function __lookupGetter__() { [native code] }''),
      (''__lookupSetter__'', ''function __lookupSetter__() { [native code] }''),
      (''isPrototypeOf'', ''function isPrototypeOf() { [native code] }''),
      (''propertyIsEnumerable'', ''function propertyIsEnumerable() { [native code] }''),
      (''toString'', ''function toString() { [native code] }''),
      (''valueOf'', ''function valueOf() { [native code] }''),
      (''__proto__'', ''[object Object]''),
      (''toLocaleString'', ''function toLocaleString() { [native code] }'')]"

definition planetNames :: "(string \<times> string) list" where
  "planetNames =
     [(''Sun'', ''Sun''), (''Moon'', ''Moon''), (''Mercury'', ''Mercury''),
      (''Venus'', ''Venus''), (''Mars'', ''Mars''), (''Jupiter'', ''Jupiter''),
      (''Saturn'', ''Saturn''), (''Uranus'', ''Uranus''), (''Neptune'', ''Neptune''),
      (''Pluto'', ''Pluto''), (''mean Node'', ''North Node''),
      (''true Node'', ''North Node''), (''Chiron'', ''Chiron''),
      (''mean Apogee'', ''Lilith''), (''Ceres'', ''Ceres''), (''Pallas'', ''Pallas''),
      (''Juno'', ''Juno''), (''Vesta'', ''Vesta'')]"

definition pointNames :: "(string \<times> string) list" where
  "pointNames =
     [(''Ascendant'', ''Ascendant''), (''MC'', ''Midheaven''), (''ARMC'', ''ARMC''),
      (''Vertex'', ''Vertex'')]"

text \<open>\<open>table[name] || name\<close>, as a key.\<close>

definition canonicalName :: "(string \<times> string) list \<Rightarrow> string \<Rightarrow> string" where
  "canonicalName table name =
     (case map_of table name of
        Some v \<Rightarrow> v
      | None \<Rightarrow> (case inheritedKey name of Some k \<Rightarrow> k | None \<Rightarrow> name))"

definition outputLines :: "string \<Rightarrow> string list" where
  "outputLines output =
     filter (\<lambda>line. trim line \<noteq> [] \<and> \<not> includesStr line ''error:''
                     \<and> \<not> includesStr line ''warning:'')
            (split (CHR 0x0A) output)"

definition addPlanet :: "(string \<rightharpoonup> point) \<Rightarrow> string \<Rightarrow> (string \<rightharpoonup> point)" where
  "addPlanet ps line =
     (case parsePlanetLine line of
        None \<Rightarrow> ps
      | Some (name, p) \<Rightarrow> ps(canonicalName planetNames name \<mapsto> p))"

definition addHouseLine ::
  "(nat \<rightharpoonup> point) \<times> (string \<rightharpoonup> point) \<Rightarrow> string
     \<Rightarrow> (nat \<rightharpoonup> point) \<times> (string \<rightharpoonup> point)" where
  "addHouseLine hc line =
     (if includesStr line ''house '' then
        (case parseHouseLine line of
           None \<Rightarrow> hc
         | Some (house, p) \<Rightarrow>
             if 1 \<le> house \<and> house \<le> 12 then ((fst hc)(house \<mapsto> p), snd hc) else hc)
      else if includesStr line ''Ascendant'' \<or> includesStr line ''MC''
              \<or> includesStr line ''ARMC'' \<or> includesStr line ''Vertex'' then
        (case parseChartPointLine line of
           None \<Rightarrow> hc
         | Some (name, p) \<Rightarrow> (fst hc, (snd hc)(canonicalName pointNames name \<mapsto> p)))
      else hc)"

definition signs :: "string list" where
  "signs = [''Aries'', ''Taurus'', ''Gemini'', ''Cancer'', ''Leo'', ''Virgo'',
            ''Libra'', ''Scorpio'', ''Sagittarius'', ''Capricorn'', ''Aquarius'', ''Pisces'']"

text \<open>\<open>signs[signIndex]\<close>: undefined unless the index is one of 0 to 11.\<close>

fun signsAt :: "number \<Rightarrow> string option" where
  "signsAt (Num i) =
     (if 0 \<le> i \<and> i < 12 \<and> of_int \<lfloor>i\<rfloor> = i then Some (signs ! nat \<lfloor>i\<rfloor>) else None)"
| "signsAt NaN = None"

text \<open>
  Each of the four derived points is built from its longitude by the same three lines
  of the source.
\<close>

definition derivedPoint :: "number \<Rightarrow> point" where
  "derivedPoint lon =
     (let signIndex = jfloor (jdiv lon 30); deg = jmod lon 30
      in \<lparr>longitude = lon, sign = signsAt signIndex,
          degree = jdiv (jround (jmul deg 100)) 100\<rparr>)"

definition opposite :: "point \<Rightarrow> point" where
  "opposite p = derivedPoint (jmod (jadd (longitude p) (Num 180)) 360)"

definition southNode :: "(string \<rightharpoonup> point) \<Rightarrow> (string \<rightharpoonup> point)" where
  "southNode ps =
     (case ps ''North Node'' of
        None \<Rightarrow> Map.empty
      | Some nn \<Rightarrow> [''South Node'' \<mapsto> opposite nn])"

definition partOfFortune ::
  "(string \<rightharpoonup> point) \<Rightarrow> (string \<rightharpoonup> point) \<Rightarrow> (string \<rightharpoonup> point)
     \<Rightarrow> (string \<rightharpoonup> point)" where
  "partOfFortune cps ps ap =
     (case (cps ''Ascendant'', ps ''Sun'', ps ''Moon'') of
        (Some asc, Some sun, Some moon) \<Rightarrow>
          (let fortuneLon =
                 jmod (jsub (jadd (longitude asc) (longitude moon)) (longitude sun)) 360;
               fortuneLon = (if jlt fortuneLon 0 then jadd fortuneLon (Num 360)
                             else fortuneLon)
           in ap(''Part of Fortune'' \<mapsto> derivedPoint fortuneLon))
      | _ \<Rightarrow> ap)"

definition descendant :: "(string \<rightharpoonup> point) \<Rightarrow> (string \<rightharpoonup> point)" where
  "descendant cps =
     (case cps ''Ascendant'' of
        None \<Rightarrow> cps
      | Some asc \<Rightarrow> cps(''Descendant'' \<mapsto> opposite asc))"

definition imumCoeli :: "(string \<rightharpoonup> point) \<Rightarrow> (string \<rightharpoonup> point)" where
  "imumCoeli cps =
     (case cps ''Midheaven'' of
        None \<Rightarrow> cps
      | Some mc \<Rightarrow> cps(''IC'' \<mapsto> opposite mc))"

text \<open>
  The chart from the two texts that \<open>swetest\<close> printed: everything
  \<open>calculateEphemeris\<close> does after its two calls of \<open>execSync\<close>.
\<close>

definition assembleChart :: "string \<Rightarrow> string \<Rightarrow> string \<Rightarrow> real \<Rightarrow> real \<Rightarrow> chart" where
  "assembleChart planetOutput houseOutput dt lat lon =
     (let ps = foldl addPlanet Map.empty (outputLines planetOutput);
          hc = foldl addHouseLine (Map.empty, Map.empty) (outputLines houseOutput);
          ap = partOfFortune (snd hc) ps (southNode ps);
          cps = imumCoeli (descendant (snd hc))
      in \<lparr>planets = ps, houses = fst hc, chart_points = cps, additional_points = ap,
          datetime = dt, coordinates = (lat, lon)\<rparr>)"

text \<open>
  \<open>calculateEphemeris\<close>. What the environment decides is a parameter: whether the
  datetime denotes a date, and for each of the two calls of \<open>swetest\<close> either the message
  of the error \<open>execSync\<close> threw or the text it returned.
\<close>

definition calculateEphemeris ::
  "bool \<Rightarrow> string + string \<Rightarrow> string + string \<Rightarrow> string \<Rightarrow> real \<Rightarrow> real \<Rightarrow> error + chart" where
  "calculateEphemeris validDate planetRun houseRun dt lat lon =
     (if \<not> validDate then
        Inl (Error (''Swiss Ephemeris calculation failed: '' @
          ''Invalid datetime format. Use ISO8601 format like 1985-04-12T23:20:50Z''))
      else (case planetRun of
        Inl msg \<Rightarrow>
          Inl (Error (''Swiss Ephemeris calculation failed: '' @
            ''Failed to execute swetest for planets: '' @ msg))
      | Inr planetOutput \<Rightarrow>
          (case houseRun of
             Inl msg \<Rightarrow>
               Inl (Error (''Swiss Ephemeris calculation failed: '' @
                 ''Failed to execute swetest for houses: '' @ msg))
           | Inr houseOutput \<Rightarrow>
               Inr (assembleChart planetOutput houseOutput dt lat lon))))"

section \<open>Synastry aspects\<close>

text \<open>
  \<open>x.toFixed(2)\<close>: the integer \<open>n\<close> nearest to \<open>100 * \<bar>x\<bar>\<close>, the larger one of two,
  printed with a point before its last two digits and a minus sign when \<open>x < 0\<close>. The
  numbers formatted here are far below \<open>10^21\<close>, where the notation would change.
\<close>

definition digitChar :: "nat \<Rightarrow> char" where
  "digitChar d = ''0123456789'' ! d"

function natToString :: "nat \<Rightarrow> string" where
  "natToString n = (if n < 10 then [digitChar n] else natToString (n div 10) @ [digitChar (n mod 10)])"
  by pat_completeness auto
termination
  by (relation "measure id") auto

declare natToString.simps [simp del]

definition fixed2 :: "real \<Rightarrow> string" where
  "fixed2 x =
     (let n = nat \<lfloor>x * 100 + 1 / 2\<rfloor>
      in natToString (n div 100) @ ''.'' @ [digitChar (n mod 100 div 10), digitChar (n mod 10)])"

fun toFixed2 :: "number \<Rightarrow> string" where
  "toFixed2 (Num x) = (if x < 0 then ''-'' @ fixed2 (- x) else fixed2 x)"
| "toFixed2 NaN = ''NaN''"

record aspect_record =
  person1_planet :: string
  person2_planet :: string
  aspect :: string
  orb :: string
  exact_angle :: string
  person1_position :: point
  person2_position :: point

definition aspectOrbs :: "(string \<times> real) list" where
  "aspectOrbs =
     [(''conjunction'', 8), (''opposition'', 8), (''trine'', 8), (''square'', 8),
      (''sextile'', 6), (''quincunx'', 3), (''semisextile'', 3)]"

definition aspectAngles :: "(string \<times> real) list" where
  "aspectAngles =
     [(''conjunction'', 0), (''semisextile'', 30), (''sextile'', 60), (''square'', 90),
      (''trine'', 120), (''quincunx'', 150), (''opposition'', 180)]"

definition mainPlanets :: "string list" where
  "mainPlanets = [''Sun'', ''Moon'', ''Mercury'', ''Venus'', ''Mars'', ''Jupiter'',
                  ''Saturn'', ''Uranus'', ''Neptune'', ''Pluto'']"

text \<open>The angular distance of two longitudes, as the loop body computes it.\<close>

definition angularDistance :: "number \<Rightarrow> number \<Rightarrow> number" where
  "angularDistance lon1 lon2 =
     (let distance = jabs (jsub lon1 lon2)
      in if jgt distance 180 then jsub (Num 360) distance else distance)"

text \<open>The innermost loop: the aspects of one pair of planets, in the order of the table.\<close>

definition pairAspects :: "string \<Rightarrow> point \<Rightarrow> string \<Rightarrow> point \<Rightarrow> aspect_record list" where
  "pairAspects planet1 p1 planet2 p2 =
     (let lon1 = longitude p1; lon2 = longitude p2;
          distance = angularDistance lon1 lon2
      in concat (map (\<lambda>(aspectName, aspectAngle).
           (let angleDiff = jabs (jsub distance (Num aspectAngle))
            in case map_of aspectOrbs aspectName of
                 None \<Rightarrow> []
               | Some maxOrb \<Rightarrow>
                   if jle angleDiff maxOrb then
                     [\<lparr>person1_planet = planet1, person2_planet = planet2,
                       aspect = aspectName, orb = toFixed2 angleDiff,
                       exact_angle = toFixed2 distance,
                       person1_position =
                         \<lparr>longitude = lon1, sign = sign p1, degree = degree p1\<rparr>,
                       person2_position =
                         \<lparr>longitude = lon2, sign = sign p2, degree = degree p2\<rparr>\<rparr>]
                   else [])) aspectAngles))"

text \<open>The two outer loops, which skip a planet that its map does not hold.\<close>

definition allAspects ::
  "(string \<rightharpoonup> point) \<Rightarrow> (string \<rightharpoonup> point) \<Rightarrow> aspect_record list" where
  "allAspects person1Planets person2Planets =
     concat (map (\<lambda>planet1.
       case person1Planets planet1 of
         None \<Rightarrow> []
       | Some p1 \<Rightarrow>
           concat (map (\<lambda>planet2.
             case person2Planets planet2 of
               None \<Rightarrow> []
             | Some p2 \<Rightarrow> pairAspects planet1 p1 planet2 p2) mainPlanets)) mainPlanets)"

text \<open>
  The comparator of the final sort is \<open>parseFloat(a.orb) - parseFloat(b.orb)\<close>, and
  \<open>Array.prototype.sort\<close> is stable: it is the stable sort by the key
  \<open>parseFloat(orb)\<close>. Every orb is a result of \<open>toFixed\<close> on a number from 0 to 8, so the
  key is never NaN.
\<close>

definition orbKey :: "aspect_record \<Rightarrow> real" where
  "orbKey a = (case parseFloat (orb a) of Num r \<Rightarrow> r | NaN \<Rightarrow> 0)"

definition calculateSynastryAspects ::
  "(string \<rightharpoonup> point) \<Rightarrow> (string \<rightharpoonup> point) \<Rightarrow> aspect_record list" where
  "calculateSynastryAspects person1Planets person2Planets =
     sort_key orbKey (allAspects person1Planets person2Planets)"

section \<open>Sample texts\<close>

text \<open>
  Two texts in the format that the comments of the parsers show, used to run the model:
  three body lines, and a house cusp with two angles.
\<close>

definition samplePlanetOutput :: string where
  "samplePlanetOutput =
     ''Sun            ,22 le 53'51.2332'' @ [CHR 0x0A] @
     ''Moon           , 2 cp 21' 3.2731'' @ [CHR 0x0A] @
     ''true Node      ,15 ar  0' 0.0000'' @ [CHR 0x0A]"

definition sampleHouseOutput :: string where
  "sampleHouseOutput =
     ''house  1       ,13 cn 39'52.5152'' @ [CHR 0x0A] @
     ''Ascendant      ,13 cn 39'52.5152'' @ [CHR 0x0A] @
     ''MC             , 1 ar 10' 0.0000'' @ [CHR 0x0A]"

section \<open>The specification's notions\<close>

text \<open>
  The notions below are not in the source. They say in mathematical terms what the
  specification states about the code: the modulus, rounding to two decimals, the sign
  table read both ways, the round trip of a point and the separation of two longitudes.
\<close>


text \<open>Rounding to two decimals, a half upwards.\<close>

definition round2 :: "real \<Rightarrow> real" where
  "round2 x = of_int \<lfloor>x * 100 + 1 / 2\<rfloor> / 100"








text \<open>The seven aspect types of the specification: name, target angle, maximum orb.\<close>

definition specAspects :: "(string \<times> real \<times> real) list" where
  "specAspects =
     [(''conjunction'', 0, 8), (''semisextile'', 30, 3), (''sextile'', 60, 6),
      (''square'', 90, 8), (''trine'', 120, 8), (''quincunx'', 150, 3),
      (''opposition'', 180, 8)]"

text \<open>The shortest angular separation of two longitudes.\<close>

definition separation :: "real \<Rightarrow> real \<Rightarrow> real" where
  "separation l1 l2 = min \<bar>l1 - l2\<bar> (360 - \<bar>l1 - l2\<bar>)"

text \<open>
  The record of an aspect between two planets at the separation \<open>d\<close>, which deviates by
  \<open>delta\<close> from the target angle: orb and exact angle are printed with two decimals.
\<close>

definition aspectRecord ::
  "string \<Rightarrow> point \<Rightarrow> string \<Rightarrow> point \<Rightarrow> string \<Rightarrow> real \<Rightarrow> real \<Rightarrow> aspect_record" where
  "aspectRecord planet1 p1 planet2 p2 name d delta =
     \<lparr>person1_planet = planet1, person2_planet = planet2, aspect = name,
      orb = toFixed2 (Num delta), exact_angle = toFixed2 (Num d),
      person1_position = \<lparr>longitude = longitude p1, sign = sign p1, degree = degree p1\<rparr>,
      person2_position = \<lparr>longitude = longitude p2, sign = sign p2, degree = degree p2\<rparr>\<rparr>"

text \<open>An aspect record with the roles of the two persons exchanged.\<close>

definition swapRoles :: "aspect_record \<Rightarrow> aspect_record" where
  "swapRoles a =
     \<lparr>person1_planet = person2_planet a, person2_planet = person1_planet a,
      aspect = aspect a, orb = orb a, exact_angle = exact_angle a,
      person1_position = person2_position a, person2_position = person1_position a\<rparr>"

text \<open>The lines of a text, joined by line feeds.\<close>

fun joinLines :: "string list \<Rightarrow> string" where
  "joinLines [] = []"
| "joinLines [l] = l"
| "joinLines (l # m # ls) = l @ CHR 0x0A # joinLines (m # ls)"

section \<open>Arithmetic of the model\<close>










section \<open>What a parsed position is\<close>




section \<open>Evaluating the parsers\<close>

lemmas parser_defs =
  parsePlanetLine_def parseHouseLine_def parseChartPointLine_def houseMatch_def
  parsePosition_def posMatch_def trim_def isSpace_def isDigit_def isLetter_def isUpper_def
  toLowerCase_def parseInt_def parseFloat_def digitVal_def signMap_def signTable_def Let_def

section \<open>The planet line of the Sun\<close>

text \<open>
  C5: parsing the line \<open>Sun            ,22 le 53'51.2332\<close> with \<open>parsePlanetLine\<close> gives
  the sign Leo, the longitude \<open>120 + 22 + 53/60 + 51.2332/3600\<close> (offset of the sign plus
  degrees, minutes and seconds), which differs from 142.8975 by less than 0.0001, and the
  degree in sign 22.9 after rounding to two decimals.
\<close>

theorem parsePlanetLine_sun_line:
  "parsePlanetLine ''Sun            ,22 le 53'51.2332'' =
     Some (''Sun'', \<lparr>longitude = Num (120 + 22 + 53 / 60 + 51.2332 / 3600),
                      sign = Some ''Leo'', degree = Num 22.9\<rparr>)
   \<and> \<bar>(120 + 22 + 53 / 60 + 51.2332 / 3600) - 142.8975\<bar> < (0.0001 :: real)"
  by (simp add: parser_defs)

section \<open>Ranges of a parsed point\<close>







text \<open>Degrees above 29 are accepted as they stand: the longitude leaves \<open>[0, 360)\<close>.\<close>

lemma parsePlanetLine_unchecked_fields:
  "parsePlanetLine ''Sun            ,45 pi  0' 0.0000'' =
     Some (''Sun'', \<lparr>longitude = Num 375, sign = Some ''Pisces'', degree = Num 45\<rparr>)"
  by (simp add: parser_defs)

section \<open>Points of a chart\<close>
















section \<open>The assembled chart\<close>
















section \<open>The sample chart\<close>

lemma sample_lines:
  "outputLines samplePlanetOutput =
     [''Sun            ,22 le 53'51.2332'', ''Moon           , 2 cp 21' 3.2731'',
      ''true Node      ,15 ar  0' 0.0000'']"
  "outputLines sampleHouseOutput =
     [''house  1       ,13 cn 39'52.5152'', ''Ascendant      ,13 cn 39'52.5152'',
      ''MC             , 1 ar 10' 0.0000'']"
  by (simp_all add: samplePlanetOutput_def sampleHouseOutput_def outputLines_def trim_def
        isSpace_def)


lemma sample_house_lines:
  "parseHouseLine ''house  1       ,13 cn 39'52.5152'' =
     Some (1, \<lparr>longitude = Num (116622661 / 1125000), sign = Some ''Cancer'',
                degree = Num 13.66\<rparr>)"
  "parseChartPointLine ''Ascendant      ,13 cn 39'52.5152'' =
     Some (''Ascendant'', \<lparr>longitude = Num (116622661 / 1125000), sign = Some ''Cancer'',
                degree = Num 13.66\<rparr>)"
  "parseChartPointLine ''MC             , 1 ar 10' 0.0000'' =
     Some (''MC'', \<lparr>longitude = Num (7 / 6), sign = Some ''Aries'', degree = Num 1.17\<rparr>)"
  by (simp_all add: parser_defs)


lemma sample_houses:
  "foldl addHouseLine (Map.empty, Map.empty) (outputLines sampleHouseOutput) =
     ([1 \<mapsto> \<lparr>longitude = Num (116622661 / 1125000), sign = Some ''Cancer'',
               degree = Num 13.66\<rparr>],
      [''Ascendant'' \<mapsto> \<lparr>longitude = Num (116622661 / 1125000), sign = Some ''Cancer'',
                         degree = Num 13.66\<rparr>,
       ''Midheaven'' \<mapsto> \<lparr>longitude = Num (7 / 6), sign = Some ''Aries'',
                         degree = Num 1.17\<rparr>])"
  by (simp add: sample_lines addHouseLine_def sample_house_lines canonicalName_def
        pointNames_def)

section \<open>The round trip of chart points\<close>





section \<open>South Node and Part of Fortune\<close>






section \<open>Lines that are skipped\<close>

lemma split_not_Nil: "split sep s \<noteq> []"
  by (induction s) (auto split: list.splits)

lemma split_append_sep: "split sep (a @ sep # b) = split sep a @ split sep b"
proof (induction a)
  case Nil
  show ?case by simp
next
  case (Cons c cs)
  obtain p ps where s: "split sep cs = p # ps"
    using split_not_Nil[of sep cs] by (cases "split sep cs") auto
  with Cons show ?case by simp
qed

lemma split_no_sep: "sep \<notin> set s \<Longrightarrow> split sep s = [s]"
  by (induction s) auto

lemma split_joinLines:
  "ls \<noteq> [] \<Longrightarrow> \<forall>l \<in> set ls. CHR 0x0A \<notin> set l \<Longrightarrow> split (CHR 0x0A) (joinLines ls) = ls"
proof (induction ls rule: joinLines.induct)
  case 1
  then show ?case by simp
next
  case (2 l)
  then show ?case by (simp add: split_no_sep)
next
  case (3 l m ls)
  then show ?case by (simp add: split_append_sep split_no_sep)
qed

lemma outputLines_joinLines:
  assumes "\<forall>l \<in> set ls. CHR 0x0A \<notin> set l"
  shows "outputLines (joinLines ls) =
           filter (\<lambda>line. trim line \<noteq> [] \<and> \<not> includesStr line ''error:''
                            \<and> \<not> includesStr line ''warning:'') ls"
proof (cases "ls = []")
  case True
  then show ?thesis by (simp add: outputLines_def trim_def)
next
  case False
  from split_joinLines[OF False assms] show ?thesis by (simp add: outputLines_def)
qed

lemma foldl_skip:
  assumes "\<not> keep l \<or> (\<forall>s. f s l = s)"
  shows "foldl f s (filter keep (before @ l # after)) = foldl f s (filter keep (before @ after))"
  using assms by auto

lemma addPlanet_skip: "parsePlanetLine l = None \<Longrightarrow> addPlanet ps l = ps"
  by (simp add: addPlanet_def)

lemma addHouseLine_skip:
  "parseHouseLine l = None \<Longrightarrow> parseChartPointLine l = None \<Longrightarrow> addHouseLine hc l = hc"
  by (simp add: addHouseLine_def)

lemma outputLines_skip:
  assumes "\<forall>x \<in> set (before @ l # after). CHR 0x0A \<notin> set x"
    and "includesStr l ''warning:'' \<or> includesStr l ''error:'' \<or> (\<forall>s. f s l = s)"
  shows "foldl f s (outputLines (joinLines (before @ l # after))) =
         foldl f s (outputLines (joinLines (before @ after)))"
proof -
  from assms(1) have n: "\<forall>x \<in> set (before @ after). CHR 0x0A \<notin> set x" by auto
  show ?thesis
    unfolding outputLines_joinLines[OF assms(1)] outputLines_joinLines[OF n]
    by (rule foldl_skip) (use assms(2) in auto)
qed

text \<open>
  C8: a line of either text that contains \<open>warning:\<close> or \<open>error:\<close>, or that none of the
  parsers accepts, leaves no trace: \<open>calculateEphemeris\<close> returns what it returns for the
  text without that line, and it returns a chart, not an error.
\<close>

theorem skipped_lines:
  assumes "\<forall>x \<in> set (before @ l # after). CHR 0x0A \<notin> set x"
    and "includesStr l ''warning:'' \<or> includesStr l ''error:''
         \<or> (parsePlanetLine l = None \<and> parseHouseLine l = None
              \<and> parseChartPointLine l = None)"
  shows "calculateEphemeris True (Inr (joinLines (before @ l # after))) (Inr houseOutput)
           dt lat lon
         = calculateEphemeris True (Inr (joinLines (before @ after))) (Inr houseOutput)
             dt lat lon
       \<and> calculateEphemeris True (Inr planetOutput) (Inr (joinLines (before @ l # after)))
           dt lat lon
         = calculateEphemeris True (Inr planetOutput) (Inr (joinLines (before @ after)))
             dt lat lon
       \<and> (\<exists>c. calculateEphemeris True (Inr (joinLines (before @ l # after))) (Inr houseOutput)
                 dt lat lon = Inr c)
       \<and> (\<exists>c. calculateEphemeris True (Inr planetOutput) (Inr (joinLines (before @ l # after)))
                 dt lat lon = Inr c)"
proof -
  have p: "includesStr l ''warning:'' \<or> includesStr l ''error:'' \<or> (\<forall>s. addPlanet s l = s)"
    using assms(2) by (auto simp: addPlanet_skip)
  have h: "includesStr l ''warning:'' \<or> includesStr l ''error:'' \<or> (\<forall>s. addHouseLine s l = s)"
    using assms(2) by (auto simp: addHouseLine_skip)
  have "assembleChart (joinLines (before @ l # after)) houseOutput dt lat lon
        = assembleChart (joinLines (before @ after)) houseOutput dt lat lon"
    unfolding assembleChart_def outputLines_skip[of before l after addPlanet, OF assms(1) p] ..
  moreover have "assembleChart planetOutput (joinLines (before @ l # after)) dt lat lon
        = assembleChart planetOutput (joinLines (before @ after)) dt lat lon"
    unfolding assembleChart_def outputLines_skip[of before l after addHouseLine, OF assms(1) h] ..
  ultimately show ?thesis by (simp add: calculateEphemeris_def)
qed

theorem skipped_lines_witness:
  "CHR 0x0A \<notin> set ''Sun            ,22 le 53'51.2332''
   \<and> CHR 0x0A \<notin> set ''warning: Moon           , 2 cp 21' 3.2731''
   \<and> CHR 0x0A \<notin> set ''true Node      ,15 ar  0' 0.0000''
   \<and> includesStr ''warning: Moon           , 2 cp 21' 3.2731'' ''warning:''
   \<and> parsePlanetLine ''warning: Moon           , 2 cp 21' 3.2731'' =
        Some (''warning: Moon'', \<lparr>longitude = Num (9804632731 / 36000000),
                                   sign = Some ''Capricorn'', degree = Num 2.35\<rparr>)
   \<and> calculateEphemeris True
        (Inr (joinLines ([''Sun            ,22 le 53'51.2332''] @
               ''warning: Moon           , 2 cp 21' 3.2731'' #
               [''true Node      ,15 ar  0' 0.0000''])))
        (Inr sampleHouseOutput) ''1985-04-12T23:20:50Z'' 0 0
      = calculateEphemeris True
        (Inr (joinLines ([''Sun            ,22 le 53'51.2332''] @
               [''true Node      ,15 ar  0' 0.0000''])))
        (Inr sampleHouseOutput) ''1985-04-12T23:20:50Z'' 0 0"
proof -
  let ?l = "''warning: Moon           , 2 cp 21' 3.2731''"
  have a: "\<forall>x \<in> set ([''Sun            ,22 le 53'51.2332''] @ ?l #
               [''true Node      ,15 ar  0' 0.0000'']). CHR 0x0A \<notin> set x"
    by simp
  have b: "includesStr ?l ''warning:''" by simp
  have c: "parsePlanetLine ?l =
        Some (''warning: Moon'', \<lparr>longitude = Num (9804632731 / 36000000),
                                   sign = Some ''Capricorn'', degree = Num 2.35\<rparr>)"
    by (simp add: parser_defs)
  from skipped_lines[OF a disjI1[OF b]] b c show ?thesis by simp
qed

section \<open>Printing and reading back two decimals\<close>

lemma digit_cases:
  assumes "d < 10"
  shows "d \<in> {0, 1, 2, 3, 4, 5, 6, 7, 8, 9 :: nat}"
proof -
  from assms have "d \<in> set [0..<10]" by simp
  then show ?thesis by (simp add: upt_rec numeral_eq_Suc)
qed

lemma digitChar_isDigit: "d < 10 \<Longrightarrow> isDigit (digitChar d)"
  using digit_cases[of d] by (auto simp: isDigit_def digitChar_def)

lemma digitVal_digitChar: "d < 10 \<Longrightarrow> digitVal (digitChar d) = d"
  using digit_cases[of d] by (auto simp: digitVal_def digitChar_def)

lemma natToString_digits: "list_all isDigit (natToString n)"
proof (induction n rule: natToString.induct)
  case (1 n)
  show ?case
  proof (cases "n < 10")
    case True
    then show ?thesis by (subst natToString.simps) (simp add: digitChar_isDigit)
  next
    case False
    with 1 show ?thesis by (subst natToString.simps) (simp add: digitChar_isDigit)
  qed
qed

lemma parseInt_snoc: "parseInt (ds @ [c]) = 10 * parseInt ds + digitVal c"
  by (simp add: parseInt_def)

lemma parseInt_natToString: "parseInt (natToString n) = n"
proof (induction n rule: natToString.induct)
  case (1 n)
  show ?case
  proof (cases "n < 10")
    case True
    then show ?thesis
      by (subst natToString.simps) (simp add: parseInt_def digitVal_digitChar)
  next
    case False
    with 1 have "parseInt (natToString (n div 10)) = n div 10" by simp
    with False show ?thesis
      by (subst natToString.simps) (simp add: parseInt_snoc digitVal_digitChar)
  qed
qed

lemma natToString_not_Nil: "natToString n \<noteq> []"
  by (subst natToString.simps) simp

lemma dot_not_digit: "\<not> isDigit (CHR ''.'')"
  by (simp add: isDigit_def)

lemma takeWhile_digits:
  "list_all isDigit ds \<Longrightarrow> \<not> isDigit c \<Longrightarrow> takeWhile isDigit (ds @ c # rest) = ds"
  by (induction ds) simp_all

lemma dropWhile_digits:
  "list_all isDigit ds \<Longrightarrow> \<not> isDigit c \<Longrightarrow> dropWhile isDigit (ds @ c # rest) = c # rest"
  by (induction ds) simp_all

lemma parseFloat_decimal:
  assumes "d1 < 10" "d0 < 10"
  shows "parseFloat (natToString a @ ''.'' @ [digitChar d1, digitChar d0]) =
           Num (real a + real (10 * d1 + d0) / 100)"
proof -
  have t: "takeWhile isDigit (natToString a @ ''.'' @ [digitChar d1, digitChar d0]) = natToString a"
    using takeWhile_digits[OF natToString_digits dot_not_digit] by simp
  have d: "dropWhile isDigit (natToString a @ ''.'' @ [digitChar d1, digitChar d0]) =
             ''.'' @ [digitChar d1, digitChar d0]"
    using dropWhile_digits[OF natToString_digits dot_not_digit] by simp
  have f: "takeWhile isDigit [digitChar d1, digitChar d0] = [digitChar d1, digitChar d0]"
    using assms by (simp add: digitChar_isDigit)
  have p: "parseInt [digitChar d1, digitChar d0] = 10 * d1 + d0"
    using assms by (simp add: parseInt_def digitVal_digitChar)
  show ?thesis
    unfolding parseFloat_def Let_def t d
    by (simp add: f p parseInt_natToString natToString_not_Nil assms digitChar_isDigit)
qed

lemma parseFloat_fixed2:
  assumes "0 \<le> x"
  shows "parseFloat (fixed2 x) = Num (round2 x)"
proof -
  define n where "n = nat \<lfloor>x * 100 + 1 / 2\<rfloor>"
  have nn: "0 \<le> \<lfloor>x * 100 + 1 / 2\<rfloor>" using assms by simp
  have r: "round2 x = real n / 100"
    using nn by (simp add: round2_def n_def)
  have a: "n mod 100 mod 10 = n mod 10" by (simp add: mod_mod_cancel)
  have "100 * (n div 100) + (10 * (n mod 100 div 10) + n mod 10) =
        100 * (n div 100) + (10 * (n mod 100 div 10) + n mod 100 mod 10)"
    by (simp only: a)
  also have "\<dots> = 100 * (n div 100) + n mod 100" by (simp only: mult_div_mod_eq)
  also have "\<dots> = n" by (simp only: mult_div_mod_eq)
  finally have "real n = real (100 * (n div 100) + (10 * (n mod 100 div 10) + n mod 10))"
    by simp
  then have e: "real (n div 100) + real (10 * (n mod 100 div 10) + n mod 10) / 100 = real n / 100"
    by simp
  have pf: "parseFloat (fixed2 x) =
          Num (real (n div 100) + real (10 * (n mod 100 div 10) + n mod 10) / 100)"
    unfolding fixed2_def Let_def n_def[symmetric]
    by (rule parseFloat_decimal) simp_all
  show ?thesis by (simp only: pf e r)
qed

lemma parseFloat_toFixed2: "0 \<le> x \<Longrightarrow> parseFloat (toFixed2 (Num x)) = Num (round2 x)"
  by (simp add: parseFloat_fixed2)

section \<open>The aspects of one pair of planets\<close>

lemma angularDistance_num:
  "angularDistance (Num l1) (Num l2) = Num (separation l1 l2)"
  by (simp add: angularDistance_def separation_def Let_def min_def)

lemma angularDistance_NaN:
  "l1 = NaN \<or> l2 = NaN \<Longrightarrow> angularDistance l1 l2 = NaN"
  by (cases l1; cases l2) (auto simp: angularDistance_def)

lemma angularDistance_sym: "angularDistance l1 l2 = angularDistance l2 l1"
  by (cases l1; cases l2) (simp_all add: angularDistance_def Let_def abs_minus_commute)

text \<open>The two tables of the source hold the seven aspects of the specification.\<close>

lemma tables_spec:
  "aspectAngles = map (\<lambda>(name, angle, maxOrb). (name, angle)) specAspects"
  "map (\<lambda>(name, angle). map_of aspectOrbs name) aspectAngles =
     map (\<lambda>(name, angle, maxOrb). Some maxOrb) specAspects"
  by (simp_all add: aspectAngles_def aspectOrbs_def specAspects_def)

lemma pairAspects_spec:
  "pairAspects planet1 p1 planet2 p2 =
     concat (map (\<lambda>(name, angle, maxOrb).
       if jle (jabs (jsub (angularDistance (longitude p1) (longitude p2)) (Num angle))) maxOrb
       then [\<lparr>person1_planet = planet1, person2_planet = planet2, aspect = name,
              orb = toFixed2 (jabs (jsub (angularDistance (longitude p1) (longitude p2))
                                         (Num angle))),
              exact_angle = toFixed2 (angularDistance (longitude p1) (longitude p2)),
              person1_position =
                \<lparr>longitude = longitude p1, sign = sign p1, degree = degree p1\<rparr>,
              person2_position =
                \<lparr>longitude = longitude p2, sign = sign p2, degree = degree p2\<rparr>\<rparr>]
       else []) specAspects)"
  by (simp add: pairAspects_def aspectAngles_def aspectOrbs_def specAspects_def Let_def)

lemma pairAspects_num:
  assumes "longitude p1 = Num l1" "longitude p2 = Num l2"
  shows "pairAspects planet1 p1 planet2 p2 =
     concat (map (\<lambda>(name, angle, maxOrb).
       if \<bar>separation l1 l2 - angle\<bar> \<le> maxOrb
       then [aspectRecord planet1 p1 planet2 p2 name (separation l1 l2)
               \<bar>separation l1 l2 - angle\<bar>]
       else []) specAspects)"
  unfolding pairAspects_spec assms angularDistance_num
  by (simp add: aspectRecord_def assms cong del: if_weak_cong)

lemma pairAspects_NaN:
  assumes "longitude p1 = NaN \<or> longitude p2 = NaN"
  shows "pairAspects planet1 p1 planet2 p2 = []"
  unfolding pairAspects_spec angularDistance_NaN[OF assms]
  by (simp add: specAspects_def)

lemma pairAspects_member:
  "a \<in> set (pairAspects planet1 p1 planet2 p2) \<longleftrightarrow>
     (\<exists>l1 l2 name angle maxOrb.
        longitude p1 = Num l1 \<and> longitude p2 = Num l2
        \<and> (name, angle, maxOrb) \<in> set specAspects
        \<and> \<bar>separation l1 l2 - angle\<bar> \<le> maxOrb
        \<and> a = aspectRecord planet1 p1 planet2 p2 name (separation l1 l2)
                \<bar>separation l1 l2 - angle\<bar>)"
proof (cases "longitude p1 = NaN \<or> longitude p2 = NaN")
  case True
  then show ?thesis by (auto simp: pairAspects_NaN)
next
  case False
  then obtain l1 l2 where l: "longitude p1 = Num l1" "longitude p2 = Num l2"
    by (cases "longitude p1"; cases "longitude p2") auto
  show ?thesis
    unfolding pairAspects_num[OF l] l
    by (auto split: if_splits)
qed

lemma pairAspects_planets:
  "a \<in> set (pairAspects planet1 p1 planet2 p2) \<Longrightarrow>
   person1_planet a = planet1 \<and> person2_planet a = planet2"
  by (auto simp: pairAspects_member aspectRecord_def)

section \<open>All pairs\<close>

lemma concat_case_member:
  "a \<in> set (concat (map (\<lambda>x. case m x of None \<Rightarrow> [] | Some p \<Rightarrow> f x p) xs)) \<longleftrightarrow>
     (\<exists>x p. x \<in> set xs \<and> m x = Some p \<and> a \<in> set (f x p))"
proof (induction xs)
  case Nil
  show ?case by simp
next
  case (Cons x xs)
  show ?case
  proof (cases "m x")
    case None
    with Cons show ?thesis by auto
  next
    case (Some p)
    with Cons show ?thesis by auto
  qed
qed

lemma allAspects_member:
  "a \<in> set (allAspects A B) \<longleftrightarrow>
     (\<exists>planet1 planet2 p1 p2.
        planet1 \<in> set mainPlanets \<and> planet2 \<in> set mainPlanets
        \<and> A planet1 = Some p1 \<and> B planet2 = Some p2
        \<and> a \<in> set (pairAspects planet1 p1 planet2 p2))"
proof -
  have "a \<in> set (allAspects A B) \<longleftrightarrow>
     (\<exists>planet1 p1. planet1 \<in> set mainPlanets \<and> A planet1 = Some p1
        \<and> a \<in> set (concat (map (\<lambda>planet2. case B planet2 of None \<Rightarrow> []
               | Some p2 \<Rightarrow> pairAspects planet1 p1 planet2 p2) mainPlanets)))"
    unfolding allAspects_def by (rule concat_case_member)
  also have "\<dots> \<longleftrightarrow>
     (\<exists>planet1 p1. planet1 \<in> set mainPlanets \<and> A planet1 = Some p1
        \<and> (\<exists>planet2 p2. planet2 \<in> set mainPlanets \<and> B planet2 = Some p2
             \<and> a \<in> set (pairAspects planet1 p1 planet2 p2)))"
    by (simp only: concat_case_member)
  also have "\<dots> \<longleftrightarrow>
     (\<exists>planet1 planet2 p1 p2.
        planet1 \<in> set mainPlanets \<and> planet2 \<in> set mainPlanets
        \<and> A planet1 = Some p1 \<and> B planet2 = Some p2
        \<and> a \<in> set (pairAspects planet1 p1 planet2 p2))"
    by blast
  finally show ?thesis .
qed

lemma distinct_concat_map:
  assumes "distinct (map g xs)"
    and "\<And>x. x \<in> set xs \<Longrightarrow> distinct (f x)"
    and "\<And>x y. x \<in> set xs \<Longrightarrow> y \<in> set (f x) \<Longrightarrow> tag y = g x"
  shows "distinct (concat (map f xs))"
  using assms
proof (induction xs)
  case Nil
  show ?case by simp
next
  case (Cons x xs)
  have d: "distinct (concat (map f xs))"
    using Cons.prems by (intro Cons.IH) auto
  have "set (f x) \<inter> set (concat (map f xs)) = {}"
  proof (rule ccontr)
    assume "set (f x) \<inter> set (concat (map f xs)) \<noteq> {}"
    then obtain y x' where y: "y \<in> set (f x)" "x' \<in> set xs" "y \<in> set (f x')" by auto
    from Cons.prems(3)[of x y] y have "tag y = g x" by simp
    moreover from Cons.prems(3)[of x' y] y have "tag y = g x'" by simp
    ultimately have "g x = g x'" by simp
    then have "g x \<in> g ` set xs" using y(2) by (metis image_eqI)
    with Cons.prems(1) show False by simp
  qed
  with d Cons.prems(2)[of x] show ?case by simp
qed

lemma distinct_mainPlanets: "distinct mainPlanets"
  by (simp add: mainPlanets_def)

lemma length_mainPlanets: "length mainPlanets = 10"
  by (simp add: mainPlanets_def)

lemma distinct_specAspects: "distinct (map fst specAspects)"
  by (simp add: specAspects_def)

lemma distinct_pairAspects: "distinct (pairAspects planet1 p1 planet2 p2)"
  unfolding pairAspects_spec
  by (rule distinct_concat_map[where g = fst and tag = aspect, OF distinct_specAspects])
     (auto split: if_splits)

lemma distinct_allAspects: "distinct (allAspects A B)"
  unfolding allAspects_def
proof (rule distinct_concat_map[where g = id and tag = person1_planet])
  show "distinct (map id mainPlanets)" by (simp add: distinct_mainPlanets)
next
  fix planet1 assume "planet1 \<in> set mainPlanets"
  show "distinct (case A planet1 of None \<Rightarrow> []
          | Some p1 \<Rightarrow> concat (map (\<lambda>planet2. case B planet2 of None \<Rightarrow> []
               | Some p2 \<Rightarrow> pairAspects planet1 p1 planet2 p2) mainPlanets))"
  proof (cases "A planet1")
    case None
    then show ?thesis by simp
  next
    case (Some p1)
    have "distinct (concat (map (\<lambda>planet2. case B planet2 of None \<Rightarrow> []
               | Some p2 \<Rightarrow> pairAspects planet1 p1 planet2 p2) mainPlanets))"
      by (rule distinct_concat_map[where g = id and tag = person2_planet])
         (auto simp: distinct_mainPlanets distinct_pairAspects
               dest: pairAspects_planets split: option.splits)
    with Some show ?thesis by simp
  qed
next
  fix planet1 y
  assume "planet1 \<in> set mainPlanets"
    and "y \<in> set (case A planet1 of None \<Rightarrow> []
          | Some p1 \<Rightarrow> concat (map (\<lambda>planet2. case B planet2 of None \<Rightarrow> []
               | Some p2 \<Rightarrow> pairAspects planet1 p1 planet2 p2) mainPlanets))"
  then show "person1_planet y = id planet1"
    by (auto dest: pairAspects_planets split: option.splits)
qed

lemma length_concat_map_le:
  "(\<And>x. x \<in> set xs \<Longrightarrow> length (f x) \<le> k) \<Longrightarrow> length (concat (map f xs)) \<le> k * length xs"
proof (induction xs)
  case Nil
  show ?case by simp
next
  case (Cons x xs)
  have "length (concat (map f xs)) \<le> k * length xs" using Cons.prems by (intro Cons.IH) simp
  moreover have "length (f x) \<le> k" using Cons.prems by simp
  ultimately show ?case by simp
qed

section \<open>Disjoint orb windows\<close>

lemma separation_range:
  assumes "0 \<le> l1" "l1 < 360" "0 \<le> l2" "l2 < 360"
  shows "0 \<le> separation l1 l2 \<and> separation l1 l2 \<le> 180"
  using assms by (auto simp: separation_def min_def)

lemma length_pairAspects: "length (pairAspects planet1 p1 planet2 p2) \<le> 1"
proof (cases "longitude p1 = NaN \<or> longitude p2 = NaN")
  case True
  then show ?thesis by (simp add: pairAspects_NaN)
next
  case False
  then obtain l1 l2 where l: "longitude p1 = Num l1" "longitude p2 = Num l2"
    by (cases "longitude p1"; cases "longitude p2") auto
  define d where "d = separation l1 l2"
  show ?thesis
    unfolding pairAspects_num[OF l] d_def[symmetric] specAspects_def
    by simp
qed

lemma windows:
  assumes "longitude p1 = Num l1" "longitude p2 = Num l2"
    and "0 \<le> separation l1 l2" "separation l1 l2 \<le> 180"
  shows "map aspect (pairAspects planet1 p1 planet2 p2) =
           (if separation l1 l2 \<le> 8 then [''conjunction'']
            else if 27 \<le> separation l1 l2 \<and> separation l1 l2 \<le> 33 then [''semisextile'']
            else if 54 \<le> separation l1 l2 \<and> separation l1 l2 \<le> 66 then [''sextile'']
            else if 82 \<le> separation l1 l2 \<and> separation l1 l2 \<le> 98 then [''square'']
            else if 112 \<le> separation l1 l2 \<and> separation l1 l2 \<le> 128 then [''trine'']
            else if 147 \<le> separation l1 l2 \<and> separation l1 l2 \<le> 153 then [''quincunx'']
            else if 172 \<le> separation l1 l2 then [''opposition'']
            else [])"
proof -
  define d where "d = separation l1 l2"
  from assms(3,4) have r: "0 \<le> d" "d \<le> 180" by (simp_all add: d_def)
  from r consider "d \<le> 8" | "8 < d \<and> d < 27" | "27 \<le> d \<and> d \<le> 33"
    | "33 < d \<and> d < 54" | "54 \<le> d \<and> d \<le> 66" | "66 < d \<and> d < 82"
    | "82 \<le> d \<and> d \<le> 98" | "98 < d \<and> d < 112" | "112 \<le> d \<and> d \<le> 128"
    | "128 < d \<and> d < 147" | "147 \<le> d \<and> d \<le> 153" | "153 < d \<and> d < 172"
    | "172 \<le> d"
    by linarith
  then show ?thesis
    unfolding pairAspects_num[OF assms(1,2)] d_def[symmetric] specAspects_def
    using r by cases (simp_all add: aspectRecord_def abs_le_iff)
qed

section \<open>The list of synastry aspects\<close>

lemmas aspect_defs =
  calculateSynastryAspects_def allAspects_def pairAspects_def mainPlanets_def
  aspectAngles_def aspectOrbs_def angularDistance_def orbKey_def fixed2_def
  natToString.simps digitChar_def Let_def

lemma pairAspects_orb:
  assumes "a \<in> set (pairAspects planet1 p1 planet2 p2)"
  shows "\<exists>x. 0 \<le> x \<and> orb a = toFixed2 (Num x) \<and> parseFloat (orb a) = Num (round2 x)"
proof -
  from assms obtain l1 l2 name angle maxOrb where
    "a = aspectRecord planet1 p1 planet2 p2 name (separation l1 l2)
           \<bar>separation l1 l2 - angle\<bar>"
    unfolding pairAspects_member by blast
  then have "orb a = toFixed2 (Num \<bar>separation l1 l2 - angle\<bar>)"
    by (simp add: aspectRecord_def)
  moreover have "0 \<le> \<bar>separation l1 l2 - angle\<bar>" by simp
  ultimately show ?thesis using parseFloat_toFixed2 by metis
qed

lemma allAspects_orbKey:
  assumes "a \<in> set (allAspects A B)"
  shows "parseFloat (orb a) = Num (orbKey a)"
proof -
  from assms obtain planet1 p1 planet2 p2 where "a \<in> set (pairAspects planet1 p1 planet2 p2)"
    unfolding allAspects_member by blast
  from pairAspects_orb[OF this] obtain x where "parseFloat (orb a) = Num (round2 x)" by blast
  then show ?thesis by (simp add: orbKey_def)
qed

text \<open>
  C2: a record is in the list that \<open>calculateSynastryAspects\<close> returns exactly when it
  is the record of a planet of the ten of \<open>mainPlanets\<close> held by the first map, a planet
  of the ten held by the second map (the same name included), and one of the seven aspect
  types whose target angle the shortest separation
  \<open>d = min \<bar>lon1 - lon2\<bar> (360 - \<bar>lon1 - lon2\<bar>)\<close> of their longitudes meets within the
  maximum orb. The record carries \<open>\<bar>d - angle\<bar>\<close> as its orb and \<open>d\<close> as its exact angle,
  both printed with two decimals, and the orb reads back as \<open>\<bar>d - angle\<bar>\<close> rounded to
  two decimals. No record occurs twice, and the ten planets hold no node and no asteroid.
\<close>

theorem synastry_aspects:
  "(a \<in> set (calculateSynastryAspects A B) \<longleftrightarrow>
      (\<exists>planet1 planet2 p1 p2 l1 l2 name angle maxOrb.
         planet1 \<in> set mainPlanets \<and> planet2 \<in> set mainPlanets
         \<and> A planet1 = Some p1 \<and> B planet2 = Some p2
         \<and> longitude p1 = Num l1 \<and> longitude p2 = Num l2
         \<and> (name, angle, maxOrb) \<in> set specAspects
         \<and> \<bar>separation l1 l2 - angle\<bar> \<le> maxOrb
         \<and> a = aspectRecord planet1 p1 planet2 p2 name (separation l1 l2)
                 \<bar>separation l1 l2 - angle\<bar>
         \<and> parseFloat (orb a) = Num (round2 \<bar>separation l1 l2 - angle\<bar>)))
   \<and> distinct (calculateSynastryAspects A B)
   \<and> length mainPlanets = 10
   \<and> set mainPlanets \<inter>
       {''North Node'', ''Lilith'', ''Chiron'', ''Ceres'', ''Pallas'', ''Juno'', ''Vesta''} = {}"
proof -
  have m: "a \<in> set (calculateSynastryAspects A B) \<longleftrightarrow>
      (\<exists>planet1 planet2 p1 p2 l1 l2 name angle maxOrb.
         planet1 \<in> set mainPlanets \<and> planet2 \<in> set mainPlanets
         \<and> A planet1 = Some p1 \<and> B planet2 = Some p2
         \<and> longitude p1 = Num l1 \<and> longitude p2 = Num l2
         \<and> (name, angle, maxOrb) \<in> set specAspects
         \<and> \<bar>separation l1 l2 - angle\<bar> \<le> maxOrb
         \<and> a = aspectRecord planet1 p1 planet2 p2 name (separation l1 l2)
                 \<bar>separation l1 l2 - angle\<bar>
         \<and> parseFloat (orb a) = Num (round2 \<bar>separation l1 l2 - angle\<bar>))" (is "?L \<longleftrightarrow> ?R")
  proof
    assume ?L
    then have "a \<in> set (allAspects A B)" by (simp add: calculateSynastryAspects_def)
    then obtain planet1 planet2 p1 p2 where
      p: "planet1 \<in> set mainPlanets" "planet2 \<in> set mainPlanets"
         "A planet1 = Some p1" "B planet2 = Some p2"
      and a: "a \<in> set (pairAspects planet1 p1 planet2 p2)"
      unfolding allAspects_member by blast
    from a obtain l1 l2 name angle maxOrb where
      q: "longitude p1 = Num l1" "longitude p2 = Num l2"
         "(name, angle, maxOrb) \<in> set specAspects"
         "\<bar>separation l1 l2 - angle\<bar> \<le> maxOrb"
         "a = aspectRecord planet1 p1 planet2 p2 name (separation l1 l2)
                 \<bar>separation l1 l2 - angle\<bar>"
      unfolding pairAspects_member by blast
    from q(5) have "orb a = toFixed2 (Num \<bar>separation l1 l2 - angle\<bar>)"
      by (simp add: aspectRecord_def)
    then have "parseFloat (orb a) = Num (round2 \<bar>separation l1 l2 - angle\<bar>)"
      by (simp only: parseFloat_toFixed2[OF abs_ge_zero])
    with p q show ?R by blast
  next
    assume ?R
    then obtain planet1 planet2 p1 p2 l1 l2 name angle maxOrb where
      p: "planet1 \<in> set mainPlanets" "planet2 \<in> set mainPlanets"
         "A planet1 = Some p1" "B planet2 = Some p2"
      and q: "longitude p1 = Num l1" "longitude p2 = Num l2"
         "(name, angle, maxOrb) \<in> set specAspects"
         "\<bar>separation l1 l2 - angle\<bar> \<le> maxOrb"
         "a = aspectRecord planet1 p1 planet2 p2 name (separation l1 l2)
                 \<bar>separation l1 l2 - angle\<bar>"
      by blast
    from q have "a \<in> set (pairAspects planet1 p1 planet2 p2)"
      unfolding pairAspects_member by blast
    with p have "a \<in> set (allAspects A B)" unfolding allAspects_member by blast
    then show ?L by (simp add: calculateSynastryAspects_def)
  qed
  have d: "distinct (calculateSynastryAspects A B)"
    by (simp add: calculateSynastryAspects_def distinct_allAspects)
  have e: "set mainPlanets \<inter>
       {''North Node'', ''Lilith'', ''Chiron'', ''Ceres'', ''Pallas'', ''Juno'', ''Vesta''} = {}"
    by (simp add: mainPlanets_def)
  from m d length_mainPlanets e show ?thesis by (intro conjI)
qed

text \<open>
  The two scenarios of the specification: planets at 10 and 100 give one square with
  orb 0.00 and exact angle 90.00; planets at 0 and 95 give one square with orb 5.00.
\<close>

lemma synastry_scenarios:
  "calculateSynastryAspects
     [''Sun'' \<mapsto> \<lparr>longitude = Num 10, sign = Some ''Aries'', degree = Num 10\<rparr>]
     [''Moon'' \<mapsto> \<lparr>longitude = Num 100, sign = Some ''Cancer'', degree = Num 10\<rparr>] =
   [\<lparr>person1_planet = ''Sun'', person2_planet = ''Moon'', aspect = ''square'',
     orb = ''0.00'', exact_angle = ''90.00'',
     person1_position = \<lparr>longitude = Num 10, sign = Some ''Aries'', degree = Num 10\<rparr>,
     person2_position = \<lparr>longitude = Num 100, sign = Some ''Cancer'', degree = Num 10\<rparr>\<rparr>]"
  "calculateSynastryAspects
     [''Sun'' \<mapsto> \<lparr>longitude = Num 0, sign = Some ''Aries'', degree = Num 0\<rparr>]
     [''Moon'' \<mapsto> \<lparr>longitude = Num 95, sign = Some ''Cancer'', degree = Num 5\<rparr>] =
   [\<lparr>person1_planet = ''Sun'', person2_planet = ''Moon'', aspect = ''square'',
     orb = ''5.00'', exact_angle = ''95.00'',
     person1_position = \<lparr>longitude = Num 0, sign = Some ''Aries'', degree = Num 0\<rparr>,
     person2_position = \<lparr>longitude = Num 95, sign = Some ''Cancer'', degree = Num 5\<rparr>\<rparr>]"
  by (simp_all add: aspect_defs)

text \<open>
  C3: the list that \<open>calculateSynastryAspects\<close> returns is in non-decreasing order of
  the orb (the number its orb text reads as), and the records of one orb stand in the
  order in which the loops found them.
\<close>

theorem synastry_sorted_stable:
  "sorted (map orbKey (calculateSynastryAspects A B))
   \<and> (\<forall>k. filter (\<lambda>a. orbKey a = k) (calculateSynastryAspects A B)
            = filter (\<lambda>a. orbKey a = k) (allAspects A B))
   \<and> (\<forall>a \<in> set (calculateSynastryAspects A B). parseFloat (orb a) = Num (orbKey a))"
proof -
  have "sorted (map orbKey (calculateSynastryAspects A B))"
    unfolding calculateSynastryAspects_def by (rule sorted_sort_key)
  moreover have "\<forall>k. filter (\<lambda>a. orbKey a = k) (calculateSynastryAspects A B)
            = filter (\<lambda>a. orbKey a = k) (allAspects A B)"
    unfolding calculateSynastryAspects_def by (simp add: sort_key_stable)
  moreover have "\<forall>a \<in> set (calculateSynastryAspects A B). parseFloat (orb a) = Num (orbKey a)"
    by (simp add: calculateSynastryAspects_def allAspects_orbKey)
  ultimately show ?thesis by (intro conjI)
qed

theorem synastry_sorted_stable_witness:
  "calculateSynastryAspects
     [''Sun'' \<mapsto> \<lparr>longitude = Num 0, sign = None, degree = Num 0\<rparr>]
     [''Sun'' \<mapsto> \<lparr>longitude = Num 5, sign = None, degree = Num 5\<rparr>,
      ''Moon'' \<mapsto> \<lparr>longitude = Num 91, sign = None, degree = Num 1\<rparr>,
      ''Mercury'' \<mapsto> \<lparr>longitude = Num 94.999, sign = None, degree = Num 5\<rparr>] =
   [aspectRecord ''Sun'' \<lparr>longitude = Num 0, sign = None, degree = Num 0\<rparr>
      ''Moon'' \<lparr>longitude = Num 91, sign = None, degree = Num 1\<rparr> ''square'' 91 1,
    aspectRecord ''Sun'' \<lparr>longitude = Num 0, sign = None, degree = Num 0\<rparr>
      ''Sun'' \<lparr>longitude = Num 5, sign = None, degree = Num 5\<rparr> ''conjunction'' 5 5,
    aspectRecord ''Sun'' \<lparr>longitude = Num 0, sign = None, degree = Num 0\<rparr>
      ''Mercury'' \<lparr>longitude = Num 94.999, sign = None, degree = Num 5\<rparr> ''square''
      94.999 4.999]
   \<and> map orb (calculateSynastryAspects
     [''Sun'' \<mapsto> \<lparr>longitude = Num 0, sign = None, degree = Num 0\<rparr>]
     [''Sun'' \<mapsto> \<lparr>longitude = Num 5, sign = None, degree = Num 5\<rparr>,
      ''Moon'' \<mapsto> \<lparr>longitude = Num 91, sign = None, degree = Num 1\<rparr>,
      ''Mercury'' \<mapsto> \<lparr>longitude = Num 94.999, sign = None, degree = Num 5\<rparr>])
     = [''1.00'', ''5.00'', ''5.00'']
   \<and> sorted (map orbKey (calculateSynastryAspects
     [''Sun'' \<mapsto> \<lparr>longitude = Num 0, sign = None, degree = Num 0\<rparr>]
     [''Sun'' \<mapsto> \<lparr>longitude = Num 5, sign = None, degree = Num 5\<rparr>,
      ''Moon'' \<mapsto> \<lparr>longitude = Num 91, sign = None, degree = Num 1\<rparr>,
      ''Mercury'' \<mapsto> \<lparr>longitude = Num 94.999, sign = None, degree = Num 5\<rparr>]))"
proof -
  let ?A = "[''Sun'' \<mapsto> \<lparr>longitude = Num 0, sign = None, degree = Num 0\<rparr>]"
  let ?B = "[''Sun'' \<mapsto> \<lparr>longitude = Num 5, sign = None, degree = Num 5\<rparr>,
      ''Moon'' \<mapsto> \<lparr>longitude = Num 91, sign = None, degree = Num 1\<rparr>,
      ''Mercury'' \<mapsto> \<lparr>longitude = Num 94.999, sign = None, degree = Num 5\<rparr>]"
  have e: "calculateSynastryAspects ?A ?B =
   [aspectRecord ''Sun'' \<lparr>longitude = Num 0, sign = None, degree = Num 0\<rparr>
      ''Moon'' \<lparr>longitude = Num 91, sign = None, degree = Num 1\<rparr> ''square'' 91 1,
    aspectRecord ''Sun'' \<lparr>longitude = Num 0, sign = None, degree = Num 0\<rparr>
      ''Sun'' \<lparr>longitude = Num 5, sign = None, degree = Num 5\<rparr> ''conjunction'' 5 5,
    aspectRecord ''Sun'' \<lparr>longitude = Num 0, sign = None, degree = Num 0\<rparr>
      ''Mercury'' \<lparr>longitude = Num 94.999, sign = None, degree = Num 5\<rparr> ''square''
      94.999 4.999]"
    by (simp add: aspect_defs parser_defs aspectRecord_def)
  have o: "map orb (calculateSynastryAspects ?A ?B) = [''1.00'', ''5.00'', ''5.00'']"
    unfolding e by (simp add: aspectRecord_def fixed2_def natToString.simps digitChar_def)
  from synastry_sorted_stable[of ?A ?B]
  have "sorted (map orbKey (calculateSynastryAspects ?A ?B))" by (rule conjunct1)
  with e o show ?thesis by (intro conjI)
qed

section \<open>At most one aspect for a pair\<close>

lemma length_allAspects: "length (allAspects A B) \<le> 100"
proof -
  have inner: "length (case A planet1 of None \<Rightarrow> []
          | Some p1 \<Rightarrow> concat (map (\<lambda>planet2. case B planet2 of None \<Rightarrow> []
               | Some p2 \<Rightarrow> pairAspects planet1 p1 planet2 p2) mainPlanets)) \<le> 10"
    for planet1
  proof (cases "A planet1")
    case None
    then show ?thesis by simp
  next
    case (Some p1)
    have "length (concat (map (\<lambda>planet2. case B planet2 of None \<Rightarrow> []
               | Some p2 \<Rightarrow> pairAspects planet1 p1 planet2 p2) mainPlanets))
          \<le> 1 * length mainPlanets"
      by (rule length_concat_map_le)
         (auto simp: length_pairAspects[simplified] split: option.splits)
    with Some show ?thesis by (simp add: length_mainPlanets)
  qed
  have "length (allAspects A B) \<le> 10 * length mainPlanets"
    unfolding allAspects_def by (rule length_concat_map_le) (rule inner)
  then show ?thesis by (simp add: length_mainPlanets)
qed

lemma pair_filter_subset:
  assumes "A planet1 = Some p1" "B planet2 = Some p2"
  shows "set (filter (\<lambda>a. person1_planet a = planet1 \<and> person2_planet a = planet2)
                (allAspects A B)) \<subseteq> set (pairAspects planet1 p1 planet2 p2)"
proof
  fix a
  assume "a \<in> set (filter (\<lambda>a. person1_planet a = planet1 \<and> person2_planet a = planet2)
                (allAspects A B))"
  then have a: "a \<in> set (allAspects A B)" "person1_planet a = planet1" "person2_planet a = planet2"
    by simp_all
  from a(1) obtain x y q1 q2 where
    m: "A x = Some q1" "B y = Some q2" "a \<in> set (pairAspects x q1 y q2)"
    unfolding allAspects_member by blast
  from pairAspects_planets[OF m(3)] a(2,3) have "x = planet1" "y = planet2" by simp_all
  with m assms show "a \<in> set (pairAspects planet1 p1 planet2 p2)" by simp
qed

lemma pair_filter_empty:
  assumes "A planet1 = None \<or> B planet2 = None"
  shows "filter (\<lambda>a. person1_planet a = planet1 \<and> person2_planet a = planet2)
                (allAspects A B) = []"
proof -
  have "\<not> (person1_planet a = planet1 \<and> person2_planet a = planet2)"
    if "a \<in> set (allAspects A B)" for a
  proof -
    from that obtain x y q1 q2 where
      m: "A x = Some q1" "B y = Some q2" "a \<in> set (pairAspects x q1 y q2)"
      unfolding allAspects_member by blast
    from pairAspects_planets[OF m(3)] m(1,2) assms show ?thesis by auto
  qed
  then show ?thesis by (simp add: filter_empty_conv)
qed

lemma length_pair_filter:
  "length (filter (\<lambda>a. person1_planet a = planet1 \<and> person2_planet a = planet2)
             (allAspects A B)) \<le> 1"
proof (cases "A planet1 = None \<or> B planet2 = None")
  case True
  then show ?thesis by (simp add: pair_filter_empty)
next
  case False
  then obtain p1 p2 where p: "A planet1 = Some p1" "B planet2 = Some p2" by auto
  let ?f = "filter (\<lambda>a. person1_planet a = planet1 \<and> person2_planet a = planet2)
              (allAspects A B)"
  have "distinct ?f" by (simp add: distinct_allAspects)
  then have "length ?f = card (set ?f)" by (rule distinct_card[symmetric])
  also have "\<dots> \<le> card (set (pairAspects planet1 p1 planet2 p2))"
  proof (rule card_mono)
    show "finite (set (pairAspects planet1 p1 planet2 p2))" by simp
    show "set ?f \<subseteq> set (pairAspects planet1 p1 planet2 p2)"
      by (rule pair_filter_subset[of A planet1 p1 B planet2 p2, OF p])
  qed
  also have "\<dots> \<le> length (pairAspects planet1 p1 planet2 p2)" by (rule card_length)
  also have "\<dots> \<le> 1" by (rule length_pairAspects)
  finally show ?thesis .
qed

text \<open>
  C10: the seven windows do not overlap. For two longitudes in \<open>[0, 360)\<close> the separation
  lies in \<open>[0, 180]\<close> and the aspect found is the one whose window, of \<open>[0, 8]\<close>,
  \<open>[27, 33]\<close>, \<open>[54, 66]\<close>, \<open>[82, 98]\<close>, \<open>[112, 128]\<close>, \<open>[147, 153]\<close> and
  \<open>[172, 180]\<close>, holds it, and none when no window does. So the loop body finds at most
  one aspect for a pair of points, every ordered pair of planets has at most one record
  in the returned list, and the list has at most 100 records.
\<close>

theorem aspect_windows_disjoint:
  "length (pairAspects planet1 p1 planet2 p2) \<le> 1
   \<and> length (filter (\<lambda>a. person1_planet a = planet1 \<and> person2_planet a = planet2)
               (calculateSynastryAspects A B)) \<le> 1
   \<and> length (calculateSynastryAspects A B) \<le> 100
   \<and> (longitude p1 = Num l1 \<and> longitude p2 = Num l2
        \<and> 0 \<le> l1 \<and> l1 < 360 \<and> 0 \<le> l2 \<and> l2 < 360 \<longrightarrow>
        0 \<le> separation l1 l2 \<and> separation l1 l2 \<le> 180
        \<and> map aspect (pairAspects planet1 p1 planet2 p2) =
           (if separation l1 l2 \<le> 8 then [''conjunction'']
            else if 27 \<le> separation l1 l2 \<and> separation l1 l2 \<le> 33 then [''semisextile'']
            else if 54 \<le> separation l1 l2 \<and> separation l1 l2 \<le> 66 then [''sextile'']
            else if 82 \<le> separation l1 l2 \<and> separation l1 l2 \<le> 98 then [''square'']
            else if 112 \<le> separation l1 l2 \<and> separation l1 l2 \<le> 128 then [''trine'']
            else if 147 \<le> separation l1 l2 \<and> separation l1 l2 \<le> 153 then [''quincunx'']
            else if 172 \<le> separation l1 l2 then [''opposition'']
            else []))"
proof -
  have f: "length (filter (\<lambda>a. person1_planet a = planet1 \<and> person2_planet a = planet2)
               (calculateSynastryAspects A B)) \<le> 1"
    unfolding calculateSynastryAspects_def filter_sort length_sort
    by (rule length_pair_filter)
  have l: "length (calculateSynastryAspects A B) \<le> 100"
    by (simp add: calculateSynastryAspects_def length_allAspects)
  have w: "longitude p1 = Num l1 \<and> longitude p2 = Num l2
        \<and> 0 \<le> l1 \<and> l1 < 360 \<and> 0 \<le> l2 \<and> l2 < 360 \<longrightarrow>
        0 \<le> separation l1 l2 \<and> separation l1 l2 \<le> 180
        \<and> map aspect (pairAspects planet1 p1 planet2 p2) =
           (if separation l1 l2 \<le> 8 then [''conjunction'']
            else if 27 \<le> separation l1 l2 \<and> separation l1 l2 \<le> 33 then [''semisextile'']
            else if 54 \<le> separation l1 l2 \<and> separation l1 l2 \<le> 66 then [''sextile'']
            else if 82 \<le> separation l1 l2 \<and> separation l1 l2 \<le> 98 then [''square'']
            else if 112 \<le> separation l1 l2 \<and> separation l1 l2 \<le> 128 then [''trine'']
            else if 147 \<le> separation l1 l2 \<and> separation l1 l2 \<le> 153 then [''quincunx'']
            else if 172 \<le> separation l1 l2 then [''opposition'']
            else [])"
  proof (intro impI, elim conjE)
    assume h: "longitude p1 = Num l1" "longitude p2 = Num l2"
      "0 \<le> l1" "l1 < 360" "0 \<le> l2" "l2 < 360"
    from separation_range[OF h(3-6)] have r: "0 \<le> separation l1 l2" "separation l1 l2 \<le> 180"
      by simp_all
    from r windows[OF h(1,2) r] show "0 \<le> separation l1 l2 \<and> separation l1 l2 \<le> 180
        \<and> map aspect (pairAspects planet1 p1 planet2 p2) =
           (if separation l1 l2 \<le> 8 then [''conjunction'']
            else if 27 \<le> separation l1 l2 \<and> separation l1 l2 \<le> 33 then [''semisextile'']
            else if 54 \<le> separation l1 l2 \<and> separation l1 l2 \<le> 66 then [''sextile'']
            else if 82 \<le> separation l1 l2 \<and> separation l1 l2 \<le> 98 then [''square'']
            else if 112 \<le> separation l1 l2 \<and> separation l1 l2 \<le> 128 then [''trine'']
            else if 147 \<le> separation l1 l2 \<and> separation l1 l2 \<le> 153 then [''quincunx'']
            else if 172 \<le> separation l1 l2 then [''opposition'']
            else [])"
      by (intro conjI)
  qed
  from length_pairAspects f l w show ?thesis by (intro conjI)
qed

theorem aspect_windows_disjoint_witness:
  "separation 0 95 = 95
   \<and> map aspect (pairAspects ''Sun'' \<lparr>longitude = Num 0, sign = Some ''Aries'', degree = Num 0\<rparr>
                    ''Moon'' \<lparr>longitude = Num 95, sign = Some ''Cancer'', degree = Num 5\<rparr>)
       = [''square'']"
proof -
  let ?p1 = "\<lparr>longitude = Num 0, sign = Some ''Aries'', degree = Num 0\<rparr>"
  let ?p2 = "\<lparr>longitude = Num 95, sign = Some ''Cancer'', degree = Num 5\<rparr>"
  have s: "separation 0 95 = 95" by (simp add: separation_def)
  have h: "longitude ?p1 = Num 0 \<and> longitude ?p2 = Num 95
        \<and> (0::real) \<le> 0 \<and> (0::real) < 360 \<and> (0::real) \<le> 95 \<and> (95::real) < 360"
    by simp
  from aspect_windows_disjoint[of "''Sun''" ?p1 "''Moon''" ?p2 Map.empty Map.empty 0 95] h
  have "map aspect (pairAspects ''Sun'' ?p1 ''Moon'' ?p2) =
           (if separation 0 95 \<le> 8 then [''conjunction'']
            else if 27 \<le> separation 0 95 \<and> separation 0 95 \<le> 33 then [''semisextile'']
            else if 54 \<le> separation 0 95 \<and> separation 0 95 \<le> 66 then [''sextile'']
            else if 82 \<le> separation 0 95 \<and> separation 0 95 \<le> 98 then [''square'']
            else if 112 \<le> separation 0 95 \<and> separation 0 95 \<le> 128 then [''trine'']
            else if 147 \<le> separation 0 95 \<and> separation 0 95 \<le> 153 then [''quincunx'']
            else if 172 \<le> separation 0 95 then [''opposition'']
            else [])"
    by blast
  then have "map aspect (pairAspects ''Sun'' ?p1 ''Moon'' ?p2) = [''square'']"
    unfolding s by simp
  with s show ?thesis by (intro conjI)
qed

section \<open>Exchanging the two persons\<close>

lemma pairAspects_swap:
  "pairAspects planet2 p2 planet1 p1 = map swapRoles (pairAspects planet1 p1 planet2 p2)"
proof -
  have s: "angularDistance (longitude p2) (longitude p1)
           = angularDistance (longitude p1) (longitude p2)"
    by (rule angularDistance_sym)
  show ?thesis
    unfolding pairAspects_spec s map_concat map_map
    by (rule arg_cong[where f = concat], rule map_cong)
       (auto simp: swapRoles_def)
qed

lemma mset_concat_append:
  "mset (concat (map (\<lambda>y. f y @ g y) ys)) =
   mset (concat (map f ys)) + mset (concat (map g ys))"
  by (induction ys) simp_all

lemma mset_concat_swap:
  "mset (concat (map (\<lambda>x. concat (map (\<lambda>y. f x y) ys)) xs)) =
   mset (concat (map (\<lambda>y. concat (map (\<lambda>x. f x y) xs)) ys))"
proof (induction xs)
  case Nil
  show ?case by (induction ys) simp_all
next
  case (Cons x xs)
  have "mset (concat (map (\<lambda>y. concat (map (\<lambda>x. f x y) (x # xs))) ys)) =
        mset (concat (map (\<lambda>y. f x y @ concat (map (\<lambda>x. f x y) xs)) ys))"
    by simp
  also have "\<dots> = mset (concat (map (f x) ys))
                  + mset (concat (map (\<lambda>y. concat (map (\<lambda>x. f x y) xs)) ys))"
    by (rule mset_concat_append)
  finally show ?case using Cons by simp
qed

text \<open>The two loops as one function of the pair of names.\<close>

lemma allAspects_pairs:
  "allAspects A B =
     concat (map (\<lambda>planet1. concat (map (\<lambda>planet2.
       case A planet1 of
         None \<Rightarrow> []
       | Some p1 \<Rightarrow> (case B planet2 of None \<Rightarrow> [] | Some p2 \<Rightarrow> pairAspects planet1 p1 planet2 p2))
       mainPlanets)) mainPlanets)"
  unfolding allAspects_def
  by (rule arg_cong[where f = concat], rule map_cong) (auto split: option.splits)

lemma mset_allAspects_swap:
  "mset (allAspects B A) = mset (map swapRoles (allAspects A B))"
proof -
  define F where "F = (\<lambda>planet1 planet2.
       case A planet1 of
         None \<Rightarrow> []
       | Some p1 \<Rightarrow> (case B planet2 of None \<Rightarrow> [] | Some p2 \<Rightarrow> pairAspects planet1 p1 planet2 p2))"
  define G where "G = (\<lambda>planet2 planet1.
       case B planet2 of
         None \<Rightarrow> []
       | Some p2 \<Rightarrow> (case A planet1 of None \<Rightarrow> [] | Some p1 \<Rightarrow> pairAspects planet2 p2 planet1 p1))"
  have ab: "allAspects A B = concat (map (\<lambda>x. concat (map (\<lambda>y. F x y) mainPlanets)) mainPlanets)"
    unfolding F_def by (rule allAspects_pairs)
  have ba: "allAspects B A = concat (map (\<lambda>y. concat (map (\<lambda>x. G y x) mainPlanets)) mainPlanets)"
    unfolding G_def by (rule allAspects_pairs)
  have fg: "G y x = map swapRoles (F x y)" for x y
    by (simp add: F_def G_def pairAspects_swap[of y _ x] split: option.splits)
  have "mset (allAspects B A) =
        mset (concat (map (\<lambda>x. concat (map (\<lambda>y. G y x) mainPlanets)) mainPlanets))"
    unfolding ba by (rule mset_concat_swap)
  also have "concat (map (\<lambda>x. concat (map (\<lambda>y. G y x) mainPlanets)) mainPlanets) =
        map swapRoles (allAspects A B)"
    unfolding ab fg by (simp add: map_concat o_def)
  finally show ?thesis .
qed

text \<open>
  C4: the records of \<open>calculateSynastryAspects B A\<close> are, as a multiset, the records of
  \<open>calculateSynastryAspects A B\<close> with the planets and positions of the two persons
  exchanged; so both lists hold the same multiset of triples of exact angle, aspect type
  and orb.
\<close>

theorem synastry_symmetric:
  "mset (calculateSynastryAspects B A) = mset (map swapRoles (calculateSynastryAspects A B))
   \<and> mset (map (\<lambda>a. (exact_angle a, aspect a, orb a)) (calculateSynastryAspects B A))
     = mset (map (\<lambda>a. (exact_angle a, aspect a, orb a)) (calculateSynastryAspects A B))"
proof -
  have a: "mset (calculateSynastryAspects B A)
           = mset (map swapRoles (calculateSynastryAspects A B))"
  proof -
    have "mset (calculateSynastryAspects B A) = mset (allAspects B A)"
      by (simp add: calculateSynastryAspects_def)
    also have "\<dots> = mset (map swapRoles (allAspects A B))" by (rule mset_allAspects_swap)
    also have "\<dots> = mset (map swapRoles (calculateSynastryAspects A B))"
      by (simp add: calculateSynastryAspects_def)
    finally show ?thesis .
  qed
  have "mset (map (\<lambda>a. (exact_angle a, aspect a, orb a)) (calculateSynastryAspects B A))
        = image_mset (\<lambda>a. (exact_angle a, aspect a, orb a)) (mset (calculateSynastryAspects B A))"
    by simp
  also have "\<dots> = image_mset (\<lambda>a. (exact_angle a, aspect a, orb a))
                     (mset (map swapRoles (calculateSynastryAspects A B)))"
    by (simp only: a)
  also have "\<dots> = mset (map (\<lambda>a. (exact_angle a, aspect a, orb a))
                     (map swapRoles (calculateSynastryAspects A B)))"
    by (simp only: mset_map)
  also have "map (\<lambda>a. (exact_angle a, aspect a, orb a))
                     (map swapRoles (calculateSynastryAspects A B))
             = map (\<lambda>a. (exact_angle a, aspect a, orb a)) (calculateSynastryAspects A B)"
    by (simp add: swapRoles_def)
  finally have b: "mset (map (\<lambda>a. (exact_angle a, aspect a, orb a)) (calculateSynastryAspects B A))
     = mset (map (\<lambda>a. (exact_angle a, aspect a, orb a)) (calculateSynastryAspects A B))" .
  from a b show ?thesis by (rule conjI)
qed

end
